theory Spec2Isabelle
  imports Main
begin

section \<open>Python strings\<close>

text \<open>
  A Python \<open>str\<close> is a sequence of Unicode code points, so it is modelled as a list of
  natural numbers (the ledger is written in Chinese, the outputs in five languages).
  \<open>py\<close> turns an ASCII literal of the scripts into its code points.
\<close>

type_synonym pystr = "nat list"

definition py :: "string \<Rightarrow> pystr" where
  "py s = map of_char s"

text \<open>The placeholder \<open>'-'\<close> that both scripts compare against.\<close>

definition dash :: pystr where
  "dash = py ''-''"

text \<open>
  \<open>str.isspace\<close> for one code point: the characters \<open>str.strip()\<close> removes when it is
  called without an argument.
\<close>

definition py_isspace :: "nat \<Rightarrow> bool" where
  "py_isspace c \<longleftrightarrow>
     (9 \<le> c \<and> c \<le> 13) \<or> (28 \<le> c \<and> c \<le> 32) \<or> c = 133 \<or> c = 160 \<or> c = 5760 \<or>
     (8192 \<le> c \<and> c \<le> 8202) \<or> c = 8232 \<or> c = 8233 \<or> c = 8239 \<or> c = 8287 \<or>
     c = 12288"

definition strip :: "pystr \<Rightarrow> pystr" where
  "strip s = rev (dropWhile py_isspace (rev (dropWhile py_isspace s)))"

text \<open>\<open>sep.join(xs)\<close>.\<close>

fun join :: "pystr \<Rightarrow> pystr list \<Rightarrow> pystr" where
  "join sep [] = []"
| "join sep [x] = x"
| "join sep (x # y # ys) = x @ sep @ join sep (y # ys)"

section \<open>Exceptions and the translation library\<close>

text \<open>An exception is kept as the text \<open>str(e)\<close> that the scripts print.\<close>

datatype exn = Exception pystr

fun str_of :: "exn \<Rightarrow> pystr" where
  "str_of (Exception m) = m"

text \<open>
  \<open>deep_translator.GoogleTranslator\<close> is not part of the repository, so it is a
  parameter of the model. Constructing the client (\<open>GoogleTranslator(source='auto',
  target=t)\<close>) checks the language code and may raise; \<open>translate_batch\<close> and
  \<open>translate\<close> are the two requests to the remote service. The service may answer
  differently every time, so both requests thread a state \<open>'s\<close> of the service, and each
  may raise or return strings (a batch answer of any length).
\<close>

record 's backend =
  client_init :: "pystr \<Rightarrow> exn option"
  translate_batch :: "pystr \<Rightarrow> pystr list \<Rightarrow> 's \<Rightarrow> (exn + pystr list) \<times> 's"
  translate_one :: "pystr \<Rightarrow> pystr \<Rightarrow> 's \<Rightarrow> (exn + pystr) \<times> 's"

text \<open>A request that left the program: the target locale and the texts it carried.\<close>

datatype request = BatchRequest pystr "pystr list" | SingleRequest pystr pystr

fun payload :: "request \<Rightarrow> pystr list" where
  "payload (BatchRequest target ts) = ts"
| "payload (SingleRequest target t) = [t]"

section \<open>The observable world\<close>

text \<open>
  What a run leaves behind: the arguments of the \<open>print\<close> calls on standard output and
  on the error stream (one entry per call, in order), the files written (path and
  content, in order), the requests made to the service, and the state of the service.
\<close>

datatype cell = PyNone | PyStr pystr

datatype artifact = JsonDoc "(pystr \<times> cell) list list" | TextDoc pystr

record 's world =
  stdout :: "pystr list"
  stderr :: "pystr list"
  written :: "(pystr \<times> artifact) list"
  requests :: "request list"
  service :: 's

definition print_out :: "pystr \<Rightarrow> 's world \<Rightarrow> 's world" where
  "print_out line w = w\<lparr>stdout := stdout w @ [line]\<rparr>"

definition print_err :: "pystr \<Rightarrow> 's world \<Rightarrow> 's world" where
  "print_err line w = w\<lparr>stderr := stderr w @ [line]\<rparr>"

definition write_file :: "pystr \<Rightarrow> artifact \<Rightarrow> 's world \<Rightarrow> 's world" where
  "write_file path a w = w\<lparr>written := written w @ [(path, a)]\<rparr>"

text \<open>The two requests, as the program issues them: the answer and the new world.\<close>

definition call_batch ::
  "'s backend \<Rightarrow> pystr \<Rightarrow> pystr list \<Rightarrow> 's world \<Rightarrow> (exn + pystr list) \<times> 's world" where
  "call_batch B target ts w =
     (case translate_batch B target ts (service w) of
        (r, s') \<Rightarrow> (r, w\<lparr>requests := requests w @ [BatchRequest target ts], service := s'\<rparr>))"

definition call_one ::
  "'s backend \<Rightarrow> pystr \<Rightarrow> pystr \<Rightarrow> 's world \<Rightarrow> (exn + pystr) \<times> 's world" where
  "call_one B target t w =
     (case translate_one B target t (service w) of
        (r, s') \<Rightarrow> (r, w\<lparr>requests := requests w @ [SingleRequest target t], service := s'\<rparr>))"

section \<open>\<open>json.dumps\<close> of a list of strings\<close>

text \<open>
  \<open>json.dumps(xs)\<close> with the default \<open>ensure_ascii=True\<close>: every string in double
  quotes, the items separated by a comma and a space. Inside a string the quote and the
  backslash get a backslash, backspace, form feed, newline, carriage return and tab
  their letter, every other code point outside \<open>' '..'~'\<close> becomes \<open>\uXXXX\<close> (four
  lower-case hex digits), a code point above \<open>0xFFFF\<close> a surrogate pair.
\<close>

definition hexdigit :: "nat \<Rightarrow> nat" where
  "hexdigit d = (if d < 10 then 48 + d else 87 + d)"

definition hex4 :: "nat \<Rightarrow> pystr" where
  "hex4 n = [hexdigit (n div 4096 mod 16), hexdigit (n div 256 mod 16),
             hexdigit (n div 16 mod 16), hexdigit (n mod 16)]"

definition escape_char :: "nat \<Rightarrow> pystr" where
  "escape_char c =
     (if c = 34 then [92, 34]
      else if c = 92 then [92, 92]
      else if c = 8 then [92, 98]
      else if c = 12 then [92, 102]
      else if c = 10 then [92, 110]
      else if c = 13 then [92, 114]
      else if c = 9 then [92, 116]
      else if 32 \<le> c \<and> c \<le> 126 then [c]
      else if c < 65536 then [92, 117] @ hex4 c
      else [92, 117] @ hex4 (55296 + (c - 65536) div 1024 mod 1024) @
           [92, 117] @ hex4 (56320 + (c - 65536) mod 1024))"

definition json_string :: "pystr \<Rightarrow> pystr" where
  "json_string s = [34] @ concat (map escape_char s) @ [34]"

definition json_dumps :: "pystr list \<Rightarrow> pystr" where
  "json_dumps xs = [91] @ join [44, 32] (map json_string xs) @ [93]"

subsection \<open>What a serialized array of strings is\<close>

text \<open>
  A reader for the JSON grammar of an array of strings (RFC 8259), as a finite
  automaton over the characters of a line; it counts the strings it has closed.
  \<open>json_array_length line\<close> is the number of elements when the whole line is such an
  array, and \<open>None\<close> otherwise.
\<close>

datatype jmode =
  JStart | JOpen | JInStr | JEsc | JHex4 | JHex3 | JHex2 | JHex1 | JAfterStr | JAfterComma
  | JDone | JBad

definition json_ws :: "nat \<Rightarrow> bool" where
  "json_ws c \<longleftrightarrow> c = 32 \<or> c = 9 \<or> c = 10 \<or> c = 13"

definition is_hex :: "nat \<Rightarrow> bool" where
  "is_hex c \<longleftrightarrow> (48 \<le> c \<and> c \<le> 57) \<or> (97 \<le> c \<and> c \<le> 102) \<or> (65 \<le> c \<and> c \<le> 70)"

definition is_escape_letter :: "nat \<Rightarrow> bool" where
  "is_escape_letter c \<longleftrightarrow>
     c = 34 \<or> c = 92 \<or> c = 47 \<or> c = 98 \<or> c = 102 \<or> c = 110 \<or> c = 114 \<or> c = 116"

fun jstep :: "jmode \<times> nat \<Rightarrow> nat \<Rightarrow> jmode \<times> nat" where
  "jstep (JStart, n) c = (if json_ws c then (JStart, n) else if c = 91 then (JOpen, n) else (JBad, n))"
| "jstep (JOpen, n) c =
     (if json_ws c then (JOpen, n) else if c = 34 then (JInStr, n)
      else if c = 93 then (JDone, n) else (JBad, n))"
| "jstep (JAfterComma, n) c =
     (if json_ws c then (JAfterComma, n) else if c = 34 then (JInStr, n) else (JBad, n))"
| "jstep (JInStr, n) c =
     (if c = 34 then (JAfterStr, Suc n) else if c = 92 then (JEsc, n)
      else if c < 32 then (JBad, n) else (JInStr, n))"
| "jstep (JEsc, n) c =
     (if is_escape_letter c then (JInStr, n) else if c = 117 then (JHex4, n) else (JBad, n))"
| "jstep (JHex4, n) c = (if is_hex c then (JHex3, n) else (JBad, n))"
| "jstep (JHex3, n) c = (if is_hex c then (JHex2, n) else (JBad, n))"
| "jstep (JHex2, n) c = (if is_hex c then (JHex1, n) else (JBad, n))"
| "jstep (JHex1, n) c = (if is_hex c then (JInStr, n) else (JBad, n))"
| "jstep (JAfterStr, n) c =
     (if json_ws c then (JAfterStr, n) else if c = 44 then (JAfterComma, n)
      else if c = 93 then (JDone, n) else (JBad, n))"
| "jstep (JDone, n) c = (if json_ws c then (JDone, n) else (JBad, n))"
| "jstep (JBad, n) c = (JBad, n)"

definition json_array_length :: "pystr \<Rightarrow> nat option" where
  "json_array_length line =
     (case foldl jstep (JStart, 0) line of (JDone, n) \<Rightarrow> Some n | _ \<Rightarrow> None)"

text \<open>A character that any terminal shows: printable ASCII, so no line break either.\<close>

definition printable_ascii :: "nat \<Rightarrow> bool" where
  "printable_ascii c \<longleftrightarrow> 32 \<le> c \<and> c \<le> 126"

section \<open>The ad-hoc translation utility (\<open>translate_support.py\<close>)\<close>

text \<open>
  The environment of one invocation: whether the first argument names a file, what
  \<open>json.load\<close> makes of that file and what \<open>json.loads\<close> makes of the argument itself.
  The command line contract gives the utility an array of strings, so a payload that
  parses is a list of strings here.
\<close>

record cli_env =
  isfile :: "pystr \<Rightarrow> bool"
  json_load_file :: "pystr \<Rightarrow> exn + pystr list"
  json_loads :: "pystr \<Rightarrow> exn + pystr list"

text \<open>Lines 16 to 23: the file when the argument is one, the argument itself otherwise.\<close>

definition read_input :: "cli_env \<Rightarrow> pystr \<Rightarrow> exn + pystr list" where
  "read_input E arg_input =
     (if isfile E arg_input then json_load_file E arg_input else json_loads E arg_input)"

text \<open>Lines 43 and 44: the test that decides whether an entry is sent for translation.\<close>

definition needs_translation :: "pystr \<Rightarrow> bool" where
  "needs_translation txt =
     (let clean_text = (if txt \<noteq> [] then strip txt else [])
      in clean_text \<noteq> [] \<and> clean_text \<noteq> dash)"

text \<open>
  Lines 40 to 46: the loop over \<open>enumerate(texts)\<close>, appending to \<open>to_translate\<close> and
  \<open>mapping_indices\<close>.
\<close>

fun collect :: "nat \<Rightarrow> pystr list \<Rightarrow> pystr list \<times> nat list \<Rightarrow> pystr list \<times> nat list" where
  "collect i [] acc = acc"
| "collect i (txt # rest) (to_translate, mapping_indices) =
     (if needs_translation txt
      then collect (Suc i) rest (to_translate @ [txt], mapping_indices @ [i])
      else collect (Suc i) rest (to_translate, mapping_indices))"

text \<open>
  Lines 54 and 55: the loop over \<open>zip(mapping_indices, translated_list)\<close>. An empty
  translation keeps the original.
\<close>

fun assign_batch :: "pystr list \<Rightarrow> (nat \<times> pystr) list \<Rightarrow> pystr list \<Rightarrow> pystr list" where
  "assign_batch texts [] results = results"
| "assign_batch texts ((idx, translated) # rest) results =
     assign_batch texts rest
       (results[idx := (if translated \<noteq> [] then translated else texts ! idx)])"

text \<open>
  Lines 59 to 64: one request per entry; an entry whose request raises keeps its
  original (\<open>except: pass\<close>).
\<close>

fun sequential ::
  "'s backend \<Rightarrow> pystr \<Rightarrow> (nat \<times> pystr) list \<Rightarrow> pystr list \<times> 's world \<Rightarrow> pystr list \<times> 's world" where
  "sequential B target [] (results, w) = (results, w)"
| "sequential B target ((idx, txt) # rest) (results, w) =
     (case call_one B target txt w of
        (Inr res, w') \<Rightarrow>
          sequential B target rest (results[idx := (if res \<noteq> [] then res else txt)], w')
      | (Inl e, w') \<Rightarrow> sequential B target rest (results, w'))"

text \<open>
  Lines 34 to 65, the body of the outer \<open>try\<close> up to the final \<open>print\<close>: the list to
  print, or the exception that reaches the outer handler.
\<close>

definition translate_all ::
  "'s backend \<Rightarrow> pystr \<Rightarrow> pystr list \<Rightarrow> 's world \<Rightarrow> (exn + pystr list) \<times> 's world" where
  "translate_all B target0 texts w =
     (let target = (if target0 = py ''zh-TW'' then py ''zh-TW'' else target0) in
      case client_init B target of
        Some e \<Rightarrow> (Inl e, w)
      | None \<Rightarrow>
          (case collect 0 texts ([], []) of
             (to_translate, mapping_indices) \<Rightarrow>
               let results = texts in
               if to_translate \<noteq> [] then
                 (case call_batch B target to_translate w of
                    (Inr translated_list, w') \<Rightarrow>
                      (Inr (assign_batch texts (zip mapping_indices translated_list) results), w')
                  | (Inl e, w') \<Rightarrow>
                      (case sequential B target (zip mapping_indices to_translate)
                              (results,
                               print_err (py ''Batch failed ('' @ target @ py ''): '' @ str_of e @
                                          py '', switching to sequential.'') w') of
                         (results', w'') \<Rightarrow> (Inr results', w'')))
               else (Inr results, w)))"

text \<open>
  \<open>main\<close> of \<open>translate_support.py\<close>. \<open>argv\<close> is \<open>sys.argv\<close> (the script's name first).
  The first component of the result is the exception that leaves \<open>main\<close>, if any.
\<close>

definition translate_support_main ::
  "cli_env \<Rightarrow> 's backend \<Rightarrow> pystr list \<Rightarrow> 's world \<Rightarrow> exn option \<times> 's world" where
  "translate_support_main E B argv w =
     (if length argv < 3 then (None, print_out (json_dumps []) w)
      else
        let arg_input = argv ! 1; target = argv ! 2 in
        case read_input E arg_input of
          Inl e \<Rightarrow>
            (None, print_out (json_dumps []) (print_err (py ''Input Error: '' @ str_of e) w))
        | Inr texts \<Rightarrow>
            if texts = [] then (None, print_out (json_dumps []) w)
            else
              (case translate_all B target texts w of
                 (Inr results, w') \<Rightarrow> (None, print_out (json_dumps results) w')
               | (Inl e, w') \<Rightarrow>
                   (None, print_out (json_dumps texts)
                            (print_err (py ''Execution Error: '' @ str_of e) w'))))"

section \<open>The batch report generator (\<open>process_support.py\<close>)\<close>

subsection \<open>Configuration\<close>

text \<open>
  The column names of the ledger, by their code points: \<open>k_time\<close> is
  U+6536 U+6B3E U+65F6 U+95F4, \<open>k_item\<close> U+6536 U+6B3E U+9879, \<open>k_amount\<close> U+91D1 U+989D,
  \<open>k_unit\<close> U+5355 U+4F4D, \<open>k_message\<close> U+7559 U+8A00, \<open>k_name\<close> U+6635 U+79F0 and
  \<open>k_note\<close> U+5907 U+6CE8.
\<close>

definition k_time :: pystr where "k_time = [0x6536, 0x6B3E, 0x65F6, 0x95F4]"
definition k_item :: pystr where "k_item = [0x6536, 0x6B3E, 0x9879]"
definition k_amount :: pystr where "k_amount = [0x91D1, 0x989D]"
definition k_unit :: pystr where "k_unit = [0x5355, 0x4F4D]"
definition k_message :: pystr where "k_message = [0x7559, 0x8A00]"
definition k_name :: pystr where "k_name = [0x6635, 0x79F0]"
definition k_note :: pystr where "k_note = [0x5907, 0x6CE8]"

definition KEY_MAP :: "(pystr \<times> pystr) list" where
  "KEY_MAP =
     [(k_time, py ''time''), (k_item, py ''item''), (k_amount, py ''amount''),
      (k_unit, py ''unit''), (k_message, py ''message''), (k_name, py ''name''),
      (k_note, py ''note'')]"

record lang_conf =
  conf_name :: pystr
  md_title :: pystr
  md_headers :: "pystr list"
  md_footer :: pystr

definition LANG_CONFIG :: "(pystr \<times> lang_conf) list" where
  "LANG_CONFIG =
    [(py ''en'',
      \<lparr>conf_name = py ''English'',
       md_title = py ''Supporters List'',
       md_headers =
         [py ''Time'',
          py ''Item'',
          py ''Amount'',
          py ''Name'',
          py ''Message'',
          py ''Note''],
       md_footer = py ''Last updated: ''\<rparr>),
     (py ''zh-CN'',
      \<lparr>conf_name = [0x7B80, 0x4F53, 0x4E2D, 0x6587],
       md_title = [0x652F, 0x6301, 0x8005, 0x540D, 0x5355],
       md_headers =
         [[0x6536, 0x6B3E, 0x65F6, 0x95F4],
          [0x6536, 0x6B3E, 0x9879],
          [0x91D1, 0x989D],
          [0x6635, 0x79F0],
          [0x7559, 0x8A00],
          [0x5907, 0x6CE8]],
       md_footer = [0x6700, 0x540E, 0x66F4, 0x65B0, 0x4E8E, 0xFF1A]\<rparr>),
     (py ''zh-TW'',
      \<lparr>conf_name = [0x7E41, 0x9AD4, 0x4E2D, 0x6587],
       md_title = [0x652F, 0x6301, 0x8005, 0x540D, 0x55AE],
       md_headers =
         [[0x6536, 0x6B3E, 0x6642, 0x9593],
          [0x6536, 0x6B3E, 0x9805],
          [0x91D1, 0x984D],
          [0x6635, 0x7A31],
          [0x7559, 0x8A00],
          [0x5099, 0x8A3B]],
       md_footer = [0x6700, 0x5F8C, 0x66F4, 0x65B0, 0x65BC, 0xFF1A]\<rparr>),
     (py ''ja'',
      \<lparr>conf_name = [0x65E5, 0x672C, 0x8A9E],
       md_title = [0x30B5, 0x30DD, 0x30FC, 0x30BF, 0x30FC, 0x30EA, 0x30B9, 0x30C8],
       md_headers =
         [[0x53D7, 0x9818, 0x6642, 0x9593],
          [0x9805, 0x76EE],
          [0x91D1, 0x984D],
          [0x540D, 0x524D],
          [0x30E1, 0x30C3, 0x30BB, 0x30FC, 0x30B8],
          [0x5099, 0x8003]],
       md_footer = [0x6700, 0x7D42, 0x66F4, 0x65B0, 0xFF1A]\<rparr>),
     (py ''ko'',
      \<lparr>conf_name = [0xD55C, 0xAD6D, 0xC5B4],
       md_title = [0xD6C4, 0xC6D0, 0xC790, 0x0020, 0xBA85, 0xB2E8],
       md_headers =
         [[0xC2DC, 0xAC04],
          [0xD56D, 0xBAA9],
          [0xAE08, 0xC561],
          [0xC774, 0xB984],
          [0xBA54, 0xC2DC, 0xC9C0],
          [0xBE44, 0xACE0]],
       md_footer = [0xB9C8, 0xC9C0, 0xB9C9, 0x0020, 0xC5C5, 0xB370, 0xC774, 0xD2B8, 0xFF1A]\<rparr>)]"

text \<open>\<open>LANG_CONFIG.keys()\<close>, in the order of the dictionary literal.\<close>

definition configured_langs :: "pystr list" where
  "configured_langs = map fst LANG_CONFIG"

subsection \<open>Rows, dictionaries and the environment\<close>

text \<open>
  A row of \<open>csv.DictReader\<close> maps the header's names to the fields of one line; a line
  with fewer fields than the header has \<open>None\<close> for the missing ones (\<open>PyNone\<close>).
\<close>

type_synonym row = "pystr \<rightharpoonup> cell"

definition dict_get :: "('k \<rightharpoonup> 'v) \<Rightarrow> 'k \<Rightarrow> 'v \<Rightarrow> 'v" where
  "dict_get d k dflt = (case d k of None \<Rightarrow> dflt | Some v \<Rightarrow> v)"

text \<open>Python's truth value of a field: \<open>None\<close> and the empty string are false.\<close>

fun truthy :: "cell \<Rightarrow> bool" where
  "truthy PyNone = False"
| "truthy (PyStr s) = (s \<noteq> [])"

text \<open>How an f-string shows a field.\<close>

fun fmt :: "cell \<Rightarrow> pystr" where
  "fmt PyNone = py ''None''"
| "fmt (PyStr s) = s"

text \<open>\<open>dict(pairs)\<close>: a later pair with the same key replaces the earlier one.\<close>

definition dict_of_pairs :: "('k \<times> 'v) list \<Rightarrow> ('k \<rightharpoonup> 'v)" where
  "dict_of_pairs ps = foldl (\<lambda>m (k, v). m(k \<mapsto> v)) Map.empty ps"

text \<open>The comprehension \<open>{text: f(text) for text in texts}\<close>.\<close>

definition dict_comp :: "('k \<Rightarrow> 'v) \<Rightarrow> 'k list \<Rightarrow> ('k \<rightharpoonup> 'v)" where
  "dict_comp f texts = dict_of_pairs (map (\<lambda>t. (t, f t)) texts)"

text \<open>
  \<open>translation_map.get(val, val)\<close> for a field \<open>val\<close>: the maps are keyed by strings,
  so \<open>None\<close> is never found.
\<close>

fun tm_get :: "(pystr \<rightharpoonup> pystr) \<Rightarrow> cell \<Rightarrow> cell" where
  "tm_get tm PyNone = PyNone"
| "tm_get tm (PyStr s) = (case tm s of None \<Rightarrow> PyStr s | Some t \<Rightarrow> PyStr t)"

text \<open>
  The environment of one run: the directory above the script's, whether the ledger
  exists, the rows the reader yields and the exception that ends the reading (from
  \<open>open\<close> or from the reader), the order in which the set of texts is listed, and the
  clock's text when the Markdown of a locale is stamped.
\<close>

record ledger_env =
  base_dir :: pystr
  csv_exists :: bool
  csv_rows :: "row list"
  csv_error :: "exn option"
  set_order :: "pystr list \<Rightarrow> pystr list"
  timestamp :: "pystr \<Rightarrow> pystr"

text \<open>\<open>os.path.join\<close> (POSIX) of two components.\<close>

definition path_join :: "pystr \<Rightarrow> pystr \<Rightarrow> pystr" where
  "path_join a b =
     (if b \<noteq> [] \<and> hd b = 47 then b
      else if a = [] \<or> last a = 47 then a @ b
      else a @ [47] @ b)"

definition docs_path :: "ledger_env \<Rightarrow> pystr \<Rightarrow> pystr" where
  "docs_path E fname = path_join (path_join (base_dir E) (py ''docs'')) fname"

definition input_csv :: "ledger_env \<Rightarrow> pystr" where
  "input_csv E = docs_path E (py ''Support.csv'')"

definition json_path :: "ledger_env \<Rightarrow> pystr \<Rightarrow> pystr" where
  "json_path E lang_code = docs_path E (py ''Support.'' @ lang_code @ py ''.json'')"

definition md_path :: "ledger_env \<Rightarrow> pystr \<Rightarrow> pystr" where
  "md_path E lang_code = docs_path E (py ''Support.'' @ lang_code @ py ''.md'')"

subsection \<open>\<open>translate_texts\<close>\<close>

definition translate_texts ::
  "'s backend \<Rightarrow> pystr list \<Rightarrow> pystr \<Rightarrow> 's world \<Rightarrow> (exn + (pystr \<rightharpoonup> pystr)) \<times> 's world" where
  "translate_texts B texts target_lang w =
     (if texts = [] \<or> target_lang = py ''zh-CN'' then (Inr (dict_comp (\<lambda>t. t) texts), w)
      else
        case client_init B target_lang of
          Some e \<Rightarrow> (Inl e, w)
        | None \<Rightarrow>
            let to_translate = filter (\<lambda>t. t \<noteq> [] \<and> strip t \<noteq> [] \<and> strip t \<noteq> dash) texts in
            if to_translate = [] then (Inr (dict_comp (\<lambda>t. t) texts), w)
            else
              (case call_batch B target_lang to_translate w of
                 (Inr translated_list, w') \<Rightarrow>
                   let t_map = dict_of_pairs (zip to_translate translated_list) in
                   (Inr (dict_comp (\<lambda>t. dict_get t_map t t) texts), w')
               | (Inl e, w') \<Rightarrow>
                   (Inr (dict_comp (\<lambda>t. t) texts),
                    print_err (py ''Translation to '' @ target_lang @ py '' failed: '' @
                               str_of e @ py ''. Fallback to original.'') w')))"

subsection \<open>\<open>generate_json\<close>\<close>

text \<open>Lines 56 to 60: the value stored under the English key of one column.\<close>

definition json_field :: "(pystr \<rightharpoonup> pystr) \<Rightarrow> row \<Rightarrow> pystr \<Rightarrow> cell" where
  "json_field translation_map r cn_key =
     (let val = dict_get r cn_key (PyStr []);
          val = (if cn_key \<in> set [k_item, k_message, k_note] \<and> truthy val \<and> val \<noteq> PyStr dash
                 then tm_get translation_map val else val)
      in if truthy val then val
         else if cn_key \<in> set [k_message, k_note] then PyStr dash else val)"

text \<open>Lines 54 to 60: \<open>new_row\<close>, its keys in the order of \<open>KEY_MAP\<close>.\<close>

definition new_row :: "(pystr \<rightharpoonup> pystr) \<Rightarrow> row \<Rightarrow> (pystr \<times> cell) list" where
  "new_row translation_map r =
     map (\<lambda>(cn_key, en_key). (en_key, json_field translation_map r cn_key)) KEY_MAP"

definition generate_json ::
  "ledger_env \<Rightarrow> row list \<Rightarrow> (pystr \<rightharpoonup> pystr) \<Rightarrow> pystr \<Rightarrow> 's world \<Rightarrow> 's world" where
  "generate_json E data translation_map lang_code w =
     (let output_data = map (new_row translation_map) data;
          file_path = json_path E lang_code
      in print_out (py ''Saved JSON: '' @ file_path) (write_file file_path (JsonDoc output_data) w))"

subsection \<open>\<open>generate_md\<close>\<close>

text \<open>Lines 80 to 83: the message and the note of a table row.\<close>

definition md_text :: "(pystr \<rightharpoonup> pystr) \<Rightarrow> row \<Rightarrow> pystr \<Rightarrow> pystr" where
  "md_text translation_map r cn_key =
     (let msg = dict_get r cn_key (PyStr [])
      in if truthy msg \<and> msg \<noteq> PyStr dash then fmt (tm_get translation_map msg) else dash)"

text \<open>Line 85: the f-string that lays out one line of the table.\<close>

definition md_line :: "pystr \<Rightarrow> pystr \<Rightarrow> pystr \<Rightarrow> pystr \<Rightarrow> pystr \<Rightarrow> pystr \<Rightarrow> pystr" where
  "md_line time item amount name msg note =
     py ''| '' @ time @ py '' | '' @ item @ py '' | '' @ amount @ py '' | '' @ name @
     py '' | '' @ msg @ py '' | '' @ note @ py '' |'' @ [10]"

text \<open>Lines 76 to 85: one row of the ledger as a line of the table.\<close>

definition md_row :: "(pystr \<rightharpoonup> pystr) \<Rightarrow> row \<Rightarrow> pystr" where
  "md_row translation_map r =
     (let time = dict_get r k_time (PyStr []);
          item = tm_get translation_map (dict_get r k_item (PyStr []));
          amount = py ''**'' @ fmt (dict_get r k_unit (PyStr [])) @
                   fmt (dict_get r k_amount (PyStr [])) @ py ''**'';
          name = dict_get r k_name (PyStr []);
          msg = md_text translation_map r k_message;
          note = md_text translation_map r k_note
      in md_line (fmt time) (fmt item) amount (fmt name) msg note)"

definition md_head :: "lang_conf \<Rightarrow> pystr" where
  "md_head conf =
     py ''# '' @ md_title conf @ [10, 10] @
     py ''| '' @ join (py '' | '') (md_headers conf) @ py '' |'' @ [10] @
     py ''| '' @ join (py '' | '') (replicate (length (md_headers conf)) (py '':---'')) @
     py '' |'' @ [10]"

definition md_tail :: "lang_conf \<Rightarrow> pystr \<Rightarrow> pystr" where
  "md_tail conf stamp = [10, 10] @ py ''--- '' @ [10] @ py ''*'' @ md_footer conf @ stamp @ py ''*''"

text \<open>
  \<open>generate_md\<close>. A locale without configuration would raise at \<open>conf['md_title']\<close>
  (\<open>conf\<close> is \<open>None\<close> then).
\<close>

definition generate_md ::
  "ledger_env \<Rightarrow> row list \<Rightarrow> pystr \<Rightarrow> (pystr \<rightharpoonup> pystr) \<Rightarrow> 's world \<Rightarrow> exn option \<times> 's world" where
  "generate_md E data lang_code translation_map w =
     (case map_of LANG_CONFIG lang_code of
        None \<Rightarrow> (Some (Exception (py ''NoneType object is not subscriptable'')), w)
      | Some conf \<Rightarrow>
          let md = md_head conf @ concat (map (md_row translation_map) data) @
                   md_tail conf (timestamp E lang_code)
          in (None, write_file (md_path E lang_code) (TextDoc md) w))"

subsection \<open>\<open>main\<close>\<close>

text \<open>Lines 107 to 109: the texts of one row that go into \<open>unique_texts\<close>.\<close>

fun scan_row :: "row \<Rightarrow> pystr list \<Rightarrow> pystr list \<Rightarrow> pystr list" where
  "scan_row r [] unique_texts = unique_texts"
| "scan_row r (k # ks) unique_texts =
     (case dict_get r k PyNone of
        PyStr s \<Rightarrow>
          if s \<noteq> [] \<and> s \<noteq> dash then scan_row r ks (List.insert s unique_texts)
          else scan_row r ks unique_texts
      | PyNone \<Rightarrow> scan_row r ks unique_texts)"

text \<open>Lines 105 to 109: the loop over the reader.\<close>

fun read_rows :: "row list \<Rightarrow> row list \<times> pystr list \<Rightarrow> row list \<times> pystr list" where
  "read_rows [] acc = acc"
| "read_rows (r # rest) (data, unique_texts) =
     read_rows rest (data @ [r], scan_row r [k_item, k_message, k_note] unique_texts)"

text \<open>
  Lines 116 to 122: the loop over the locales. An exception that nothing catches ends
  the run.
\<close>

fun process_langs ::
  "ledger_env \<Rightarrow> 's backend \<Rightarrow> row list \<Rightarrow> pystr list \<Rightarrow> pystr list \<Rightarrow> 's world \<Rightarrow>
   exn option \<times> 's world" where
  "process_langs E B data texts_list [] w = (None, w)"
| "process_langs E B data texts_list (lang # rest) w =
     (case translate_texts B texts_list lang (print_out (py ''Processing '' @ lang @ py ''...'') w) of
        (Inl e, w1) \<Rightarrow> (Some e, w1)
      | (Inr t_map, w1) \<Rightarrow>
          let w2 = generate_json E data t_map lang w1 in
          if lang \<in> set [py ''zh-CN'', py ''zh-TW'', py ''en''] then
            (case generate_md E data lang t_map w2 of
               (Some e, w3) \<Rightarrow> (Some e, w3)
             | (None, w3) \<Rightarrow> process_langs E B data texts_list rest w3)
          else process_langs E B data texts_list rest w2)"

definition process_support_main ::
  "ledger_env \<Rightarrow> 's backend \<Rightarrow> 's world \<Rightarrow> exn option \<times> 's world" where
  "process_support_main E B w =
     (if \<not> csv_exists E then
        (None, print_out (py ''Error: '' @ input_csv E @ py '' not found.'') w)
      else
        case csv_error E of
          Some e \<Rightarrow> (None, print_out (py ''Error reading CSV: '' @ str_of e) w)
        | None \<Rightarrow>
            (case read_rows (csv_rows E) ([], []) of
               (data, unique_texts) \<Rightarrow>
                 process_langs E B data (set_order E unique_texts) configured_langs w))"

section \<open>Reference functions and sample inputs\<close>

text \<open>
  \<open>place texts trs\<close> says where translations go, without indices: walking the input in
  order, an entry that needs translation takes the next answer of \<open>trs\<close> when there is
  one and it is not empty, and every other entry stays as it is.
\<close>

fun place :: "pystr list \<Rightarrow> pystr list \<Rightarrow> pystr list" where
  "place [] tr = []"
| "place (x # xs) tr =
     (if needs_translation x then
        (case tr of [] \<Rightarrow> x # place xs []
         | t # tr' \<Rightarrow> (if t \<noteq> [] then t else x) # place xs tr')
      else x # place xs tr)"

text \<open>
  \<open>ask_each\<close> sends the entries one by one; an entry whose request raises counts as an
  empty answer.
\<close>

fun ask_each :: "'s backend \<Rightarrow> pystr \<Rightarrow> pystr list \<Rightarrow> 's world \<Rightarrow> pystr list \<times> 's world" where
  "ask_each B target [] w = ([], w)"
| "ask_each B target (t # ts) w =
     (case call_one B target t w of
        (r, w') \<Rightarrow>
          (case ask_each B target ts w' of
             (rs, w'') \<Rightarrow> ((case r of Inl e \<Rightarrow> [] | Inr s \<Rightarrow> s) # rs, w'')))"

text \<open>Concrete inputs on which the theorems below are exercised.\<close>

definition sample_cli_env :: cli_env where
  "sample_cli_env =
     \<lparr>isfile = (\<lambda>p. False),
      json_load_file = (\<lambda>p. Inl (Exception (py ''No such file''))),
      json_loads = (\<lambda>a. Inr [py ''Hello'', py ''-'', [], py '' - ''])\<rparr>"

definition sample_argv :: "pystr list" where
  "sample_argv = [py ''translate_support.py'', py ''texts'', py ''ja'']"

definition failing_backend :: "unit backend" where
  "failing_backend =
     \<lparr>client_init = (\<lambda>t. None),
      translate_batch = (\<lambda>t ts s. (Inl (Exception (py ''quota'')), s)),
      translate_one = (\<lambda>t x s. (Inl (Exception (py ''quota'')), s))\<rparr>"

definition empty_world :: "unit world" where
  "empty_world = \<lparr>stdout = [], stderr = [], written = [], requests = [], service = ()\<rparr>"

section \<open>Lemmas about the ad-hoc utility\<close>

lemma collect_acc:
  "collect i xs (a, b) = (a @ fst (collect i xs ([], [])), b @ snd (collect i xs ([], [])))"
proof (induction xs arbitrary: i a b)
  case Nil
  then show ?case by simp
next
  case (Cons x xs)
  show ?case
  proof (cases "needs_translation x")
    case True
    have "collect i (x # xs) (a, b) = collect (Suc i) xs (a @ [x], b @ [i])"
      using True by simp
    also have "\<dots> = ((a @ [x]) @ fst (collect (Suc i) xs ([], [])),
                      (b @ [i]) @ snd (collect (Suc i) xs ([], [])))"
      by (rule Cons.IH)
    finally have l: "collect i (x # xs) (a, b) =
        (a @ x # fst (collect (Suc i) xs ([], [])), b @ i # snd (collect (Suc i) xs ([], [])))"
      by simp
    have "collect i (x # xs) ([], []) = collect (Suc i) xs ([] @ [x], [] @ [i])"
      using True by simp
    also have "\<dots> = (([] @ [x]) @ fst (collect (Suc i) xs ([], [])),
                      ([] @ [i]) @ snd (collect (Suc i) xs ([], [])))"
      by (rule Cons.IH)
    finally have r: "collect i (x # xs) ([], []) =
        (x # fst (collect (Suc i) xs ([], [])), i # snd (collect (Suc i) xs ([], [])))"
      by simp
    show ?thesis unfolding l r by simp
  next
    case False
    then show ?thesis using Cons.IH [of "Suc i" a b] by simp
  qed
qed

lemma collect_Cons:
  "collect i (x # xs) ([], []) =
     (if needs_translation x
      then (x # fst (collect (Suc i) xs ([], [])), i # snd (collect (Suc i) xs ([], [])))
      else collect (Suc i) xs ([], []))"
  using collect_acc [of "Suc i" xs "[x]" "[i]"] by simp

lemma collect_fst: "fst (collect i xs ([], [])) = filter needs_translation xs"
  by (induction xs arbitrary: i) (simp_all add: collect_Cons del: collect.simps(2))

lemma collect_length: "length (snd (collect i xs ([], []))) = length (fst (collect i xs ([], [])))"
  by (induction xs arbitrary: i) (simp_all add: collect_Cons del: collect.simps(2))

lemma collect_range: "j \<in> set (snd (collect i xs ([], []))) \<Longrightarrow> i \<le> j \<and> j < i + length xs"
  by (induction xs arbitrary: i) (fastforce simp add: collect_Cons simp del: collect.simps(2) split: if_splits)+

lemma place_Nil: "place xs [] = xs"
  by (induction xs) simp_all

lemma length_place: "length (place xs tr) = length xs"
  by (induction xs tr rule: place.induct) (simp_all split: list.splits)

lemma place_keeps:
  "i < length xs \<Longrightarrow> \<not> needs_translation (xs ! i) \<Longrightarrow> place xs tr ! i = xs ! i"
proof (induction xs tr arbitrary: i rule: place.induct)
  case (1 tr)
  then show ?case by simp
next
  case (2 x xs tr)
  then show ?case by (cases i) (auto split: list.splits)
qed

lemma assign_batch_place:
  "length pre' = length pre \<Longrightarrow>
   assign_batch (pre @ xs) (zip (snd (collect (length pre) xs ([], []))) trs) (pre' @ xs)
     = pre' @ place xs trs"
proof (induction xs arbitrary: pre pre' trs)
  case Nil
  then show ?case by simp
next
  case (Cons x xs)
  have step: "\<And>v. assign_batch ((pre @ [x]) @ xs)
            (zip (snd (collect (length (pre @ [x])) xs ([], []))) trs') ((pre' @ [v]) @ xs)
          = (pre' @ [v]) @ place xs trs'" for trs'
    using Cons.prems by (intro Cons.IH) simp
  show ?case
  proof (cases "needs_translation x")
    case False
    then show ?thesis using step [of trs x] by (simp add: collect_Cons del: collect.simps(2))
  next
    case True
    show ?thesis
    proof (cases trs)
      case Nil
      then show ?thesis using True by (simp add: collect_Cons place_Nil del: collect.simps(2))
    next
      case (Cons t trs')
      have upd: "(pre' @ x # xs)[length pre := v] = pre' @ v # xs" for v
        using Cons.prems by (simp add: list_update_append)
      have nth: "(pre @ x # xs) ! length pre = x" by simp
      show ?thesis
        using True Cons step [of trs' t] step [of trs' x]
        by (simp add: collect_Cons upd nth del: collect.simps(2))
    qed
  qed
qed


lemma call_one_world:
  "call_one B target t w = (r, w') \<Longrightarrow>
     requests w' = requests w @ [SingleRequest target t] \<and> stdout w' = stdout w \<and>
     stderr w' = stderr w \<and> written w' = written w"
  by (auto simp: call_one_def split: prod.splits)

lemma call_batch_world:
  "call_batch B target ts w = (r, w') \<Longrightarrow>
     requests w' = requests w @ [BatchRequest target ts] \<and> stdout w' = stdout w \<and>
     stderr w' = stderr w \<and> written w' = written w"
  by (auto simp: call_batch_def split: prod.splits)

lemma ask_each_world:
  "ask_each B target ts w = (rs, w') \<Longrightarrow>
     requests w' = requests w @ map (SingleRequest target) ts \<and> stdout w' = stdout w \<and>
     stderr w' = stderr w \<and> written w' = written w"
proof (induction ts arbitrary: w rs w')
  case Nil
  then show ?case by simp
next
  case (Cons t ts)
  obtain r w1 where c: "call_one B target t w = (r, w1)" by (cases "call_one B target t w")
  obtain rs1 w2 where a: "ask_each B target ts w1 = (rs1, w2)" by (cases "ask_each B target ts w1")
  have "w' = w2" using Cons.prems c a by simp
  then show ?case using call_one_world [OF c] Cons.IH [OF a] by simp
qed

lemma sequential_place:
  "length pre' = length (pre :: pystr list) \<Longrightarrow>
   sequential B target
     (zip (snd (collect (length pre) xs ([], []))) (fst (collect (length pre) xs ([], []))))
     (pre' @ xs, w)
   = (pre' @ place xs (fst (ask_each B target (filter needs_translation xs) w)),
      snd (ask_each B target (filter needs_translation xs) w))"
proof (induction xs arbitrary: pre pre' w)
  case Nil
  then show ?case by simp
next
  case (Cons x xs)
  have step: "sequential B target
       (zip (snd (collect (length (pre @ [x])) xs ([], [])))
            (fst (collect (length (pre @ [x])) xs ([], []))))
       ((pre' @ [v]) @ xs, w1)
     = ((pre' @ [v]) @ place xs (fst (ask_each B target (filter needs_translation xs) w1)),
        snd (ask_each B target (filter needs_translation xs) w1))" for v w1
    using Cons.prems by (intro Cons.IH) simp
  show ?case
  proof (cases "needs_translation x")
    case False
    then show ?thesis using step [of x w] by (simp add: collect_Cons del: collect.simps(2))
  next
    case True
    obtain r w1 where c: "call_one B target x w = (r, w1)" by (cases "call_one B target x w")
    obtain rs1 w2 where a: "ask_each B target (filter needs_translation xs) w1 = (rs1, w2)"
      by (cases "ask_each B target (filter needs_translation xs) w1")
    have upd: "(pre' @ x # xs)[length pre := v] = pre' @ v # xs" for v
      using Cons.prems by (simp add: list_update_append)
    show ?thesis
    proof (cases r)
      case (Inl e)
      then show ?thesis using True c a step [of x w1]
        by (simp add: collect_Cons del: collect.simps(2))
    next
      case (Inr res)
      then show ?thesis using True c a step [of res w1] step [of x w1]
        by (simp add: collect_Cons upd del: collect.simps(2))
    qed
  qed
qed

lemma translate_all_cases:
  fixes B :: "'s backend"
  obtains
    (init_failed) e where "client_init B target = Some e"
      and "translate_all B target texts w = (Inl e, w)"
  | (nothing) "client_init B target = None" and "filter needs_translation texts = []"
      and "translate_all B target texts w = (Inr texts, w)"
  | (batch_ok) trs w1 where "client_init B target = None"
      and "call_batch B target (filter needs_translation texts) w = (Inr trs, w1)"
      and "translate_all B target texts w = (Inr (place texts trs), w1)"
  | (batch_failed) e w1 where "client_init B target = None"
      and "call_batch B target (filter needs_translation texts) w = (Inl e, w1)"
      and "translate_all B target texts w =
            (Inr (place texts (fst (ask_each B target (filter needs_translation texts)
                     (print_err (py ''Batch failed ('' @ target @ py ''): '' @ str_of e @
                                 py '', switching to sequential.'') w1)))),
             snd (ask_each B target (filter needs_translation texts)
                     (print_err (py ''Batch failed ('' @ target @ py ''): '' @ str_of e @
                                 py '', switching to sequential.'') w1)))"
proof (cases "client_init B target")
  case (Some e)
  then have "translate_all B target texts w = (Inl e, w)"
    by (simp add: translate_all_def)
  with Some show ?thesis by (rule init_failed)
next
  case None
  obtain tt mi where col: "collect 0 texts ([], []) = (tt, mi)"
    by (cases "collect 0 texts ([], [])")
  have tt: "tt = filter needs_translation texts"
    using collect_fst [of 0 texts] col by simp
  have mi: "mi = snd (collect (length ([]::pystr list)) texts ([], []))"
    using col by simp
  show ?thesis
  proof (cases "tt = []")
    case True
    then have t: "translate_all B target texts w = (Inr texts, w)"
      using None col by (simp add: translate_all_def)
    have "filter needs_translation texts = []" using True tt by simp
    with None show ?thesis using t by (rule nothing)
  next
    case False
    obtain r w1 where cb: "call_batch B target tt w = (r, w1)"
      by (cases "call_batch B target tt w")
    show ?thesis
    proof (cases r)
      case (Inr trs)
      have "assign_batch ([] @ texts) (zip mi trs) ([] @ texts) = [] @ place texts trs"
        unfolding mi by (rule assign_batch_place) simp
      then have t: "translate_all B target texts w = (Inr (place texts trs), w1)"
        using None col False cb Inr by (simp add: translate_all_def)
      have "call_batch B target (filter needs_translation texts) w = (Inr trs, w1)"
        using cb Inr tt by simp
      with None show ?thesis using t by (rule batch_ok)
    next
      case (Inl e)
      let ?w2 = "print_err (py ''Batch failed ('' @ target @ py ''): '' @ str_of e @
                                 py '', switching to sequential.'') w1"
      have "sequential B target (zip mi tt) ([] @ texts, ?w2)
            = ([] @ place texts (fst (ask_each B target (filter needs_translation texts) ?w2)),
               snd (ask_each B target (filter needs_translation texts) ?w2))"
        unfolding mi tt
        using sequential_place [of "[]" "[]" B target texts ?w2] collect_fst [of 0 texts]
        by simp
      then have t: "translate_all B target texts w =
            (Inr (place texts (fst (ask_each B target (filter needs_translation texts) ?w2))),
             snd (ask_each B target (filter needs_translation texts) ?w2))"
        using None col False cb Inl by (simp add: translate_all_def)
      have "call_batch B target (filter needs_translation texts) w = (Inl e, w1)"
        using cb Inl tt by simp
      with None show ?thesis using t by (rule batch_failed)
    qed
  qed
qed

lemma hexdigit_ok: "d < 16 \<Longrightarrow> printable_ascii (hexdigit d) \<and> is_hex (hexdigit d)"
  by (auto simp: hexdigit_def printable_ascii_def is_hex_def)

lemma hex4_printable: "list_all printable_ascii (hex4 n)"
  by (simp add: hex4_def hexdigit_ok)

lemma escape_char_printable: "list_all printable_ascii (escape_char c)"
  by (simp add: escape_char_def hex4_printable) (simp add: printable_ascii_def)

lemma join_all:
  "list_all P sep \<Longrightarrow> \<forall>x\<in>set xs. list_all P x \<Longrightarrow> list_all P (join sep xs)"
  by (induction sep xs rule: join.induct) simp_all

lemma json_string_printable: "list_all printable_ascii (json_string s)"
proof -
  have "list_all printable_ascii (concat (map escape_char s))"
    by (induction s) (simp_all add: escape_char_printable)
  then show ?thesis by (simp add: json_string_def printable_ascii_def)
qed

lemma json_dumps_printable: "list_all printable_ascii (json_dumps xs)"
proof -
  have "list_all printable_ascii (join [44, 32] (map json_string xs))"
    by (rule join_all) (simp_all add: json_string_printable printable_ascii_def)
  then show ?thesis by (simp add: json_dumps_def printable_ascii_def)
qed

lemma run_hex4: "foldl jstep (JHex4, n) (hex4 k) = (JInStr, n)"
  by (simp add: hex4_def hexdigit_ok)

lemma run_escape_char: "foldl jstep (JInStr, n) (escape_char c) = (JInStr, n)"
  by (simp add: escape_char_def is_escape_letter_def run_hex4)

lemma run_body: "foldl jstep (JInStr, n) (concat (map escape_char s)) = (JInStr, n)"
  by (induction s) (simp_all add: run_escape_char)

lemma run_json_string:
  "m = JOpen \<or> m = JAfterComma \<Longrightarrow> foldl jstep (m, n) (json_string s) = (JAfterStr, Suc n)"
  by (auto simp: json_string_def json_ws_def run_body)

lemma run_items:
  "m = JOpen \<or> m = JAfterComma \<Longrightarrow>
   foldl jstep (m, n) (join [44, 32] (map json_string (x # xs))) = (JAfterStr, Suc n + length xs)"
proof (induction xs arbitrary: x n m)
  case Nil
  then show ?case by (simp add: run_json_string)
next
  case (Cons y ys)
  have "foldl jstep (JAfterComma, Suc n) (join [44, 32] (map json_string (y # ys)))
         = (JAfterStr, Suc (Suc n) + length ys)"
    by (rule Cons.IH) simp
  then show ?case using Cons.prems
    by (simp add: run_json_string json_ws_def)
qed

lemma json_array_length_dumps: "json_array_length (json_dumps xs) = Some (length xs)"
proof (cases xs)
  case Nil
  then show ?thesis by (simp add: json_array_length_def json_dumps_def json_ws_def)
next
  case (Cons x rest)
  have "foldl jstep (JOpen, 0) (join [44, 32] (map json_string (x # rest)))
          = (JAfterStr, Suc 0 + length rest)"
    by (rule run_items) simp
  then show ?thesis using Cons
    by (simp add: json_array_length_def json_dumps_def json_ws_def)
qed

lemma strip_Nil: "strip [] = []"
  by (simp add: strip_def)

lemma needs_translation_iff: "needs_translation t \<longleftrightarrow> strip t \<noteq> [] \<and> strip t \<noteq> dash"
  by (auto simp: needs_translation_def strip_Nil Let_def)

lemma strip_dash: "strip dash = dash"
  by (simp add: strip_def dash_def py_def py_isspace_def)

lemma json_dumps_Nil: "json_dumps [] = py ''[]''"
  by (simp add: json_dumps_def py_def)

lemma place_all_empty: "\<forall>t\<in>set trs. t = [] \<Longrightarrow> place xs trs = xs"
  by (induction xs trs rule: place.induct) (auto split: list.splits)

text \<open>What the outer try leaves behind, for every behaviour of the library.\<close>

lemma translate_all_summary:
  fixes B :: "'s backend"
  assumes "translate_all B target texts w = (r, w')"
  shows "stdout w' = stdout w \<and> written w' = written w \<and>
         (\<exists>new. requests w' = requests w @ new \<and>
                 (\<forall>q\<in>set new. \<forall>t\<in>set (payload q). needs_translation t)) \<and>
         (case r of Inl e \<Rightarrow> True | Inr rs \<Rightarrow> \<exists>trs. rs = place texts trs)"
proof (cases rule: translate_all_cases [of B target texts w])
  case (init_failed e)
  then show ?thesis using assms by simp
next
  case nothing
  then show ?thesis using assms place_Nil [of texts, symmetric] by (auto intro: exI [of _ "[]"])
next
  case (batch_ok trs w1)
  then show ?thesis using assms call_batch_world [OF batch_ok(2)] by auto
next
  case (batch_failed e w1)
  let ?w2 = "print_err (py ''Batch failed ('' @ target @ py ''): '' @ str_of e @
                                 py '', switching to sequential.'') w1"
  obtain rs w3 where a: "ask_each B target (filter needs_translation texts) ?w2 = (rs, w3)"
    by (cases "ask_each B target (filter needs_translation texts) ?w2")
  have w2: "requests ?w2 = requests w1 \<and> stdout ?w2 = stdout w1 \<and> written ?w2 = written w1"
    by (simp add: print_err_def)
  show ?thesis
    using assms batch_failed(3) a call_batch_world [OF batch_failed(2)] ask_each_world [OF a] w2
    by auto
qed

section \<open>Properties of the ad-hoc utility\<close>

text \<open>
  C10: invoked with fewer than two command-line arguments (so \<open>sys.argv\<close> has fewer than
  three entries), the utility prints exactly the empty array \<open>[]\<close> on standard output,
  writes nothing to the error stream, sends nothing to the service and returns normally.
\<close>

theorem translate_support_few_arguments:
  "length argv < 3 \<Longrightarrow>
   translate_support_main E B argv w = (None, w\<lparr>stdout := stdout w @ [py ''[]'']\<rparr>)"
  by (simp add: translate_support_main_def print_out_def json_dumps_Nil)

theorem translate_support_few_arguments_witness:
  "length [py ''translate_support.py'', py ''texts''] < 3 \<and>
   translate_support_main sample_cli_env failing_backend [py ''translate_support.py'', py ''texts'']
     empty_world
   = (None, empty_world\<lparr>stdout := [[91, 93]]\<rparr>)"
  using translate_support_few_arguments
    [of "[py ''translate_support.py'', py ''texts'']" sample_cli_env failing_backend empty_world]
  by (simp add: empty_world_def py_def)

end
